theory Spec2Isabelle
  imports Complex_Main "HOL-Library.AList"
begin

section \<open>The geocoder control of goong-geocoder-js (lib/index.js)\<close>

text \<open>
  The control is an object with mutable fields whose methods run as event handlers: DOM events
  (keydown, paste, change, click) and the settlement of the promises returned by the
  autocomplete service. Each method is embedded as a function from the state of the control
  to the list of statements it executes, in program order; \<open>exec\<close> gives the effect of one
  statement on the state and \<open>run\<close> executes a list of them. A condition that a method
  evaluates after some of its own statements is evaluated on the state those statements
  produced.
\<close>

subsection \<open>Values\<close>

text \<open>
  JavaScript values stored in option objects. Numbers that the code only copies (zoom,
  latitude, longitude) are reals; \<open>JLngLat lng lat\<close> is the two-element array \<open>[lng, lat]\<close>.
\<close>

datatype jsval = JNum real | JStr string | JBool bool | JLngLat real real

type_synonym jsobject = "(string \<times> jsval) list"

text \<open>
  \<open>extend(target, source)\<close> of the package xtend copies every own key of the source into the
  target; it is named \<open>xtend\<close> here. \<open>extend({}, a, b)\<close> is \<open>xtend (xtend [] a) b\<close>.
\<close>

definition xtend :: "jsobject \<Rightarrow> jsobject \<Rightarrow> jsobject" where
  "xtend target source = foldl (\<lambda>t (k, v). AList.update k v t) target source"

text \<open>
  The options \<open>flyTo\<close> and \<open>marker\<close> are documented as \<open>Boolean|Object\<close>: \<open>false\<close>, \<open>true\<close>, or an
  object of custom settings.
\<close>

datatype js_option = Off | On | Custom jsobject

fun truthy :: "js_option \<Rightarrow> bool" where
  "truthy Off = False"
| "truthy On = True"
| "truthy (Custom obj) = True"

fun own_props :: "js_option \<Rightarrow> jsobject" where
  "own_props (Custom obj) = obj"
| "own_props Off = []"
| "own_props On = []"

text \<open>
  The values of a parsed response body. A number is given by the text JavaScript prints
  for it; an object is the list of its members in the order in which its own keys are
  enumerated, which is the order \<open>JSON.stringify\<close> writes them in.
\<close>

datatype json =
    JsonNull
  | JsonBool bool
  | JsonNumber string
  | JsonString string
  | JsonArray "json list"
  | JsonObject "(string \<times> json) list"

text \<open>
  One autocomplete candidate of a search response (\<open>res.predictions[i]\<close>): an object with
  members such as \<open>place_id\<close>, \<open>description\<close> and \<open>structured_formatting\<close>.
\<close>

type_synonym prediction = "(string \<times> json) list"

text \<open>\<open>selected.place_id\<close>, which \<open>_onChange\<close> sends as \<open>placeid\<close>; \<open>None\<close> is \<open>undefined\<close>.\<close>

definition place_id :: "prediction \<Rightarrow> json option" where
  "place_id c = map_of c ''place_id''"

text \<open>
  \<open>JSON.stringify\<close> on such values. A string is written between double quotes, with the
  double quote, the backslash and the control characters below U+0020 escaped; the members
  of an object are written in their order, separated by commas, without white space.
\<close>

definition hex_digit :: "nat \<Rightarrow> char" where
  "hex_digit n = ''0123456789abcdef'' ! (n mod 16)"

definition escape_unit :: "char \<Rightarrow> string" where
  "escape_unit ch =
     (if ch = CHR 0x08 then [CHR 0x5C, CHR ''b'']
      else if ch = CHR 0x09 then [CHR 0x5C, CHR ''t'']
      else if ch = CHR 0x0A then [CHR 0x5C, CHR ''n'']
      else if ch = CHR 0x0C then [CHR 0x5C, CHR ''f'']
      else if ch = CHR 0x0D then [CHR 0x5C, CHR ''r'']
      else if ch = CHR 0x22 then [CHR 0x5C, CHR 0x22]
      else if ch = CHR 0x5C then [CHR 0x5C, CHR 0x5C]
      else if (of_char ch :: nat) < 32
      then [CHR 0x5C, CHR ''u'', CHR ''0'', CHR ''0'',
            hex_digit (of_char ch div 16), hex_digit (of_char ch mod 16)]
      else [ch])"

definition quote :: "string \<Rightarrow> string" where
  "quote v = [CHR 0x22] @ concat (map escape_unit v) @ [CHR 0x22]"

fun join :: "string list \<Rightarrow> string" where
  "join [] = []"
| "join [x] = x"
| "join (x # y # zs) = x @ '','' @ join (y # zs)"

primrec stringify :: "json \<Rightarrow> string" where
  "stringify JsonNull = ''null''"
| "stringify (JsonBool b) = (if b then ''true'' else ''false'')"
| "stringify (JsonNumber n) = n"
| "stringify (JsonString v) = quote v"
| "stringify (JsonArray vs) = ''['' @ join (map stringify vs) @ '']''"
| "stringify (JsonObject ms) =
     ''{'' @ join (map (\<lambda>(k, v). quote k @ '':'' @ v) (map (map_prod id stringify) ms)) @ ''}''"

text \<open>\<open>JSON.stringify(selected)\<close> for a candidate.\<close>

definition JSON_stringify :: "prediction \<Rightarrow> string" where
  "JSON_stringify c = stringify (JsonObject c)"

text \<open>The body of a place-detail response: \<open>detail.result.geometry.location.{lat,lng}\<close>.\<close>

record place_detail =
  formatted_address :: string
  loc_lat :: real
  loc_lng :: real

text \<open>
  The argument of \<open>autoCompleteService.search\<close>. The source sends \<open>location\<close> as the string
  \<open>latitude + "," + longitude\<close>; the pair stands for that string.
\<close>

record search_config =
  input :: string
  radius :: real
  location :: "(real \<times> real) option"

text \<open>
  A rejection value: a falsy value (\<open>null\<close>, \<open>undefined\<close>), or an object with an optional
  numeric \<open>status\<close> and a message.
\<close>

datatype js_error = Falsy | Failure "int option" string

fun status0 :: "js_error \<Rightarrow> bool" where
  "status0 Falsy = False"
| "status0 (Failure st msg) = (st = Some 0)"

text \<open>The events of \<open>this._eventEmitter\<close> with their payloads.\<close>

datatype event =
    Loading string
  | Results "prediction list"
  | Result place_detail
  | Clear
  | Error js_error

record key_event =
  keyCode :: int
  metaKey :: bool

subsection \<open>State\<close>

record geocoder_options =
  zoom :: real
  flyTo :: js_option
  trackProximity :: bool
  minLength :: int
  radius_opt :: real
  marker :: js_option
  goongjs :: bool
  clearAndBlurOnEsc :: bool
  proximity :: "(real \<times> real) option"

text \<open>
  Modelled from the spec: the suggestion store (\<open>this._typeahead\<close>, an instance of the external
  package suggestions, which is not under src/). Section 4.1: \<open>update\<close> replaces the list,
  resets the selection to none and re-renders; \<open>clear\<close> empties the list and the selection;
  \<open>renderError\<close> displays a message in place of the list. The field \<open>selected\<close> is also
  written directly by the control.
\<close>

record typeahead =
  suggestions :: "prediction list"
  selected :: "prediction option"
  message :: "string option"

datatype request = SearchRequest search_config | DetailRequest prediction

text \<open>
  The statements of the control. \<open>SendSearch\<close> and \<open>SendPlaceDetail\<close> are the two calls of the
  autocomplete service (\<open>SendPlaceDetail c\<close> sends \<open>{placeid: c.place_id}\<close> and its handlers
  close over the candidate \<open>c\<close>); \<open>MarkerAdd opts lng lat\<close> is
  \<open>this.mapMarker = new Marker(opts); this.mapMarker.setLngLat([lng, lat]).addTo(this._map)\<close>;
  \<open>MarkerRemove\<close> is \<open>this.mapMarker.remove(); this.mapMarker = null\<close>.
\<close>

datatype action =
    SetLoadingDisplay string
  | SetClearDisplay string
  | Emit event
  | SetInputString string
  | SetFresh bool
  | SetLastSelected "string option"
  | SetSelected "prediction option"
  | SetInputValue string
  | TypeaheadUpdate "prediction list"
  | TypeaheadClear
  | TypeaheadRenderError string
  | SendSearch search_config
  | SendPlaceDetail prediction
  | MapFlyTo jsobject
  | MarkerRemove
  | MarkerAdd jsobject real real
  | InputFocus
  | InputBlur
  | InputScrollLeft int
  | InputSetSelectionRange int int
  | PreventDefault

text \<open>
  The fields of the control. \<open>lastSelected\<close> is \<open>null\<close> or the string
  \<open>JSON.stringify(selected)\<close> of the candidate whose detail request succeeded last.
  \<open>has_map\<close> and \<open>has_goongjs\<close> say whether \<open>this._map\<close> and \<open>this._goongjs\<close> are set.
  \<open>issued\<close> lists the requests sent so far, \<open>settled\<close> the indices of those whose promise
  has settled, and \<open>trace\<close> every statement executed so far.
\<close>

record geocoder =
  options :: geocoder_options
  inputString :: string
  fresh :: bool
  lastSelected :: "string option"
  has_map :: bool
  has_goongjs :: bool
  mapMarker :: "(real \<times> real) option"
  inputValue :: string
  clearDisplay :: string
  loadingDisplay :: string
  typeahead :: typeahead
  issued :: "request list"
  settled :: "nat list"
  trace :: "action list"

fun effect :: "action \<Rightarrow> geocoder \<Rightarrow> geocoder" where
  "effect (SetLoadingDisplay d) s = s\<lparr>loadingDisplay := d\<rparr>"
| "effect (SetClearDisplay d) s = s\<lparr>clearDisplay := d\<rparr>"
| "effect (Emit ev) s = s"
| "effect (SetInputString q) s = s\<lparr>inputString := q\<rparr>"
| "effect (SetFresh b) s = s\<lparr>fresh := b\<rparr>"
| "effect (SetLastSelected c) s = s\<lparr>lastSelected := c\<rparr>"
| "effect (SetSelected c) s = s\<lparr>typeahead := (typeahead s)\<lparr>selected := c\<rparr>\<rparr>"
| "effect (SetInputValue v) s = s\<lparr>inputValue := v\<rparr>"
| "effect (TypeaheadUpdate ps) s =
     s\<lparr>typeahead := \<lparr>suggestions = ps, selected = None, message = None\<rparr>\<rparr>"
| "effect TypeaheadClear s =
     s\<lparr>typeahead := (typeahead s)\<lparr>suggestions := [], selected := None\<rparr>\<rparr>"
| "effect (TypeaheadRenderError m) s = s\<lparr>typeahead := (typeahead s)\<lparr>message := Some m\<rparr>\<rparr>"
| "effect (SendSearch c) s = s\<lparr>issued := issued s @ [SearchRequest c]\<rparr>"
| "effect (SendPlaceDetail c) s = s\<lparr>issued := issued s @ [DetailRequest c]\<rparr>"
| "effect (MapFlyTo opts) s = s"
| "effect MarkerRemove s = s\<lparr>mapMarker := None\<rparr>"
| "effect (MarkerAdd opts x y) s = s\<lparr>mapMarker := Some (x, y)\<rparr>"
| "effect InputFocus s = s"
| "effect InputBlur s = s"
| "effect (InputScrollLeft n) s = s"
| "effect (InputSetSelectionRange a b) s = s"
| "effect PreventDefault s = s"

definition exec :: "action \<Rightarrow> geocoder \<Rightarrow> geocoder" where
  "exec a s = (effect a s)\<lparr>trace := trace s @ [a]\<rparr>"

definition run :: "action list \<Rightarrow> geocoder \<Rightarrow> geocoder" where
  "run acts s = fold exec acts s"

subsection \<open>Construction and mounting\<close>

definition default_options :: geocoder_options where
  "default_options =
     \<lparr>zoom = 16, flyTo = On, trackProximity = True, minLength = 2, radius_opt = 3000,
      marker = On, goongjs = False, clearAndBlurOnEsc = False, proximity = None\<rparr>"

text \<open>The constructor sets \<open>inputString\<close>, \<open>fresh\<close> and \<open>lastSelected\<close>; nothing is mounted yet.\<close>

definition GoongGeocoder :: "geocoder_options \<Rightarrow> geocoder" where
  "GoongGeocoder opts =
     \<lparr>options = opts, inputString = [], fresh = True, lastSelected = None,
      has_map = False, has_goongjs = False, mapMarker = None, inputValue = [],
      clearDisplay = [], loadingDisplay = [],
      typeahead = \<lparr>suggestions = [], selected = None, message = None\<rparr>,
      issued = [], settled = [], trace = []\<rparr>"

text \<open>
  The map is an external object. What it answers when the control asks for its view is a
  parameter of the methods that ask: \<open>getZoom()\<close> and the latitude and longitude of
  \<open>getCenter().wrap()\<close>.
\<close>

record map_view =
  view_zoom :: real
  view_lat :: real
  view_lng :: real

text \<open>\<open>setProximity(proximity)\<close> assigns the option; the pair is (latitude, longitude).\<close>

definition setProximity :: "(real \<times> real) option \<Rightarrow> geocoder \<Rightarrow> geocoder" where
  "setProximity p s = s\<lparr>options := (options s)\<lparr>proximity := p\<rparr>\<rparr>"

text \<open>\<open>_updateProximity()\<close>, also the listener of the map's \<open>moveend\<close> event.\<close>

definition updateProximity :: "map_view \<Rightarrow> geocoder \<Rightarrow> geocoder" where
  "updateProximity view s =
     (if \<not> has_map s then s
      else if view_zoom view > 9 then setProximity (Some (view_lat view, view_lng view)) s
      else setProximity None s)"

text \<open>
  \<open>onAdd(map)\<close>: keeps the map, creates the suggestion store, takes the proximity from the
  view of the map when \<open>trackProximity\<close> is set, and disables the marker option when there
  is a map without \<open>options.goongjs\<close>. The first argument says whether a map was passed, the
  second is the view of \<open>this._map\<close>. (The construction of the DOM elements is left out.)
\<close>

definition onAdd :: "bool \<Rightarrow> map_view \<Rightarrow> geocoder \<Rightarrow> geocoder" where
  "onAdd with_map view s =
     (let s1 = s\<lparr>has_map := with_map \<or> has_map s,
                 typeahead := \<lparr>suggestions = [], selected = None, message = None\<rparr>,
                 mapMarker := None\<rparr>
      in if has_map s1
         then (let s2 = (if trackProximity (options s1) then updateProximity view s1 else s1);
                   s3 = s2\<lparr>has_goongjs := goongjs (options s2)\<rparr>
               in if \<not> has_goongjs s3 \<and> truthy (marker (options s3))
                  then s3\<lparr>options := (options s3)\<lparr>marker := Off\<rparr>\<rparr>
                  else s3)
         else s1)"

subsection \<open>Methods\<close>

definition errorMessage :: string where
  "errorMessage = ''<div class='' @ [CHR 0x27] @ ''goong-js-geocoder--error'' @ [CHR 0x27]
     @ ''>There was an error reaching the server</div>''"

definition noResultsMessage :: string where
  "noResultsMessage = ''<div class='' @ [CHR 0x27]
     @ ''goong-js-geocoder--error goongjs-gl-geocoder--no-results'' @ [CHR 0x27]
     @ ''>No results found</div>''"

definition renderMessage :: "string \<Rightarrow> action list" where
  "renderMessage msg =
     [TypeaheadUpdate [], SetSelected None, TypeaheadClear, TypeaheadRenderError msg]"

definition renderError :: "action list" where
  "renderError = renderMessage errorMessage"

definition renderNoResults :: "action list" where
  "renderNoResults = renderMessage noResultsMessage"

definition removeMarker :: "geocoder \<Rightarrow> action list" where
  "removeMarker s = (if mapMarker s \<noteq> None then [MarkerRemove] else [])"

definition handleMarker :: "place_detail \<Rightarrow> geocoder \<Rightarrow> action list" where
  "handleMarker detail s =
     (if \<not> has_map s then []
      else removeMarker s @
           [MarkerAdd (xtend (xtend [] [(''color'', JStr ''#469af7'')])
                              (own_props (marker (options s))))
                      (loc_lng detail) (loc_lat detail)])"

text \<open>The configuration \<open>_geocode\<close> builds for the search call.\<close>

definition search_query :: "string \<Rightarrow> geocoder \<Rightarrow> search_config" where
  "search_query searchInput s =
     \<lparr>input = searchInput, radius = radius_opt (options s),
      location =
        (if trackProximity (options s) \<and> has_map s
            \<and> (case proximity (options s) of
                  None \<Rightarrow> False
                | Some (latitude, longitude) \<Rightarrow> latitude \<noteq> 0 \<and> longitude \<noteq> 0)
         then proximity (options s) else None)\<rparr>"

text \<open>\<open>_geocode(searchInput)\<close> up to the point where the request is sent.\<close>

definition geocode :: "string \<Rightarrow> geocoder \<Rightarrow> action list" where
  "geocode searchInput s =
     [SetLoadingDisplay ''block'', Emit (Loading searchInput), SetInputString searchInput,
      SendSearch (search_query searchInput s)]"

text \<open>The handler \<open>_geocode\<close> passes to \<open>request.then\<close>; \<open>res\<close> is \<open>response.body.predictions\<close>.\<close>

definition search_then :: "prediction list \<Rightarrow> geocoder \<Rightarrow> action list" where
  "search_then res s =
     [SetLoadingDisplay ''none''] @
     (if fresh s then [SetFresh False] else []) @
     (if res \<noteq> []
      then [SetClearDisplay ''block'', Emit (Results res), TypeaheadUpdate res]
      else [SetClearDisplay ''none'', SetSelected None] @ renderNoResults @ [Emit (Results res)])"

text \<open>The handler \<open>_geocode\<close> passes to \<open>request.catch\<close>.\<close>

definition search_catch :: "js_error \<Rightarrow> geocoder \<Rightarrow> action list" where
  "search_catch err s =
     (if status0 err then []
      else [SetLoadingDisplay ''none'', SetClearDisplay ''none'', SetSelected None] @
           renderError @ [Emit (Results []), Emit (Error err)])"

text \<open>\<open>_onChange()\<close> up to the point where the detail request is sent.\<close>

definition onChange :: "geocoder \<Rightarrow> action list" where
  "onChange s =
     (case selected (typeahead s) of
        None \<Rightarrow> []
      | Some sel \<Rightarrow>
          if Some (JSON_stringify sel) \<noteq> lastSelected s
          then (if \<not> truthy (flyTo (options s)) then [] else [SendPlaceDetail sel])
          else [])"

definition flyOptions :: "place_detail \<Rightarrow> geocoder \<Rightarrow> jsobject" where
  "flyOptions detail s =
     AList.update ''center'' (JLngLat (loc_lng detail) (loc_lat detail))
       (xtend (xtend [] [(''zoom'', JNum (zoom (options s)))]) (own_props (flyTo (options s))))"

text \<open>The handler \<open>_onChange\<close> passes to \<open>request.then\<close>; it closes over \<open>selected\<close>.\<close>

definition detail_then :: "prediction \<Rightarrow> place_detail \<Rightarrow> geocoder \<Rightarrow> action list" where
  "detail_then sel detail s =
     [SetClearDisplay ''none''] @
     (if has_map s then [MapFlyTo (flyOptions detail s)] else []) @
     (if truthy (marker (options s)) \<and> has_goongjs s then handleMarker detail s else []) @
     [InputFocus, InputScrollLeft 0, InputSetSelectionRange 0 0,
      SetLastSelected (Some (JSON_stringify sel)), Emit (Result detail)]"

text \<open>The handler \<open>_onChange\<close> passes to \<open>request.catch\<close>.\<close>

definition detail_catch :: "js_error \<Rightarrow> geocoder \<Rightarrow> action list" where
  "detail_catch err s = [Emit (Error err)]"

text \<open>\<open>_clear(ev)\<close>; the argument says whether an event was passed.\<close>

definition clear_shared :: "bool \<Rightarrow> geocoder \<Rightarrow> action list" where
  "clear_shared ev s =
     (let pre = (if ev then [PreventDefault] else []) @
                [SetInputValue [], SetSelected None, TypeaheadClear];
          s1 = run pre s;
          chg = onChange s1;
          s2 = run (chg @ [SetClearDisplay ''none'']) s1
      in pre @ chg @ [SetClearDisplay ''none''] @ removeMarker s2 @
         [SetLastSelected None, Emit Clear, SetFresh True])"

text \<open>\<open>clear(ev)\<close>: \<open>_clear\<close>, then the input is focused.\<close>

definition clear :: "bool \<Rightarrow> geocoder \<Rightarrow> action list" where
  "clear ev s = clear_shared ev s @ [InputFocus]"

definition ESC_KEY_CODE :: int where
  "ESC_KEY_CODE = 27"

definition TAB_KEY_CODE :: int where
  "TAB_KEY_CODE = 9"

text \<open>
  \<open>_onKeyDown(e)\<close>. The listener is registered on \<open>this._inputEl\<close>, so the target whose value
  is read is the input element.
\<close>

definition onKeyDown :: "key_event \<Rightarrow> geocoder \<Rightarrow> action list" where
  "onKeyDown e s =
     (if keyCode e = ESC_KEY_CODE \<and> clearAndBlurOnEsc (options s)
      then clear_shared True s @ [InputBlur]
      else if inputValue s = []
      then [SetFresh True] @
           (if keyCode e \<noteq> TAB_KEY_CODE then clear True (run [SetFresh True] s) else []) @
           [SetClearDisplay ''none'']
      else if metaKey e
              \<or> keyCode e \<in> set [TAB_KEY_CODE, ESC_KEY_CODE, 37, 39, 13, 38, 40]
      then []
      else if int (length (inputValue s)) \<ge> minLength (options s)
      then geocode (inputValue s) s
      else [])"

text \<open>\<open>_onPaste(e)\<close>; the argument is the clipboard text.\<close>

definition onPaste :: "string \<Rightarrow> geocoder \<Rightarrow> action list" where
  "onPaste v s = (if int (length v) \<ge> minLength (options s) then geocode v s else [])"

subsection \<open>Events and the settlement of requests\<close>

datatype 'a outcome = Resolved 'a | Rejected js_error

text \<open>A request is outstanding when it has been sent and its promise has not settled.\<close>

definition outstanding :: "nat \<Rightarrow> geocoder \<Rightarrow> bool" where
  "outstanding i s = (i < length (issued s) \<and> i \<notin> set (settled s))"

text \<open>
  Modelled from the spec: the pick of a candidate from the list, which the external package
  suggestions (not under src/) performs. Section 4.1: \<open>select\<close> sets the active candidate and
  triggers no network activity itself; the change event of the input element then runs the
  listener \<open>_onChange\<close>. \<open>Select c\<close> is the pick of the candidate \<open>c\<close>.

  The other events are the calls of the listeners registered by \<open>onAdd\<close> and the settlement
  of the promise of the request that was sent as number \<open>i\<close>.
\<close>

datatype input_event =
    KeyDown key_event
  | Paste string
  | Select prediction
  | Change
  | ClickClear
  | SearchSettles nat "prediction list outcome"
  | DetailSettles nat "place_detail outcome"

fun handler :: "input_event \<Rightarrow> geocoder \<Rightarrow> action list" where
  "handler (KeyDown e) s = onKeyDown e s"
| "handler (Paste v) s = onPaste v s"
| "handler (Select c) s = [SetSelected (Some c)] @ onChange (run [SetSelected (Some c)] s)"
| "handler Change s = onChange s"
| "handler ClickClear s = clear True s"
| "handler (SearchSettles i out) s =
     (if outstanding i s
      then (case issued s ! i of
              SearchRequest c \<Rightarrow>
                (case out of Resolved res \<Rightarrow> search_then res s | Rejected err \<Rightarrow> search_catch err s)
            | DetailRequest c \<Rightarrow> [])
      else [])"
| "handler (DetailSettles i out) s =
     (if outstanding i s
      then (case issued s ! i of
              SearchRequest c \<Rightarrow> []
            | DetailRequest c \<Rightarrow>
                (case out of Resolved d \<Rightarrow> detail_then c d s | Rejected err \<Rightarrow> detail_catch err s))
      else [])"

fun settles :: "input_event \<Rightarrow> geocoder \<Rightarrow> nat list" where
  "settles (SearchSettles i out) s =
     (if outstanding i s then (case issued s ! i of SearchRequest c \<Rightarrow> [i] | DetailRequest c \<Rightarrow> [])
      else [])"
| "settles (DetailSettles i out) s =
     (if outstanding i s then (case issued s ! i of SearchRequest c \<Rightarrow> [] | DetailRequest c \<Rightarrow> [i])
      else [])"
| "settles ev s = []"

definition step :: "input_event \<Rightarrow> geocoder \<Rightarrow> geocoder" where
  "step ev s = (run (handler ev s) s)\<lparr>settled := settled s @ settles ev s\<rparr>"

text \<open>The events emitted by a list of statements, in order.\<close>

fun emitted :: "action list \<Rightarrow> event list" where
  "emitted [] = []"
| "emitted (Emit ev # acts) = ev # emitted acts"
| "emitted (a # acts) = emitted acts"

text \<open>The requests sent by a list of statements, in order.\<close>

fun sent :: "action list \<Rightarrow> request list" where
  "sent [] = []"
| "sent (SendSearch c # acts) = SearchRequest c # sent acts"
| "sent (SendPlaceDetail c # acts) = DetailRequest c # sent acts"
| "sent (a # acts) = sent acts"

subsection \<open>The debounced keydown listener\<close>

text \<open>
  Modelled from the spec: \<open>debounce\<close> (the external package lodash.debounce, which is not under
  src/). \<open>onAdd\<close> registers \<open>debounce(this._onKeyDown, 200)\<close> as the keydown listener; the spec
  describes debouncing as delaying the dispatch until a quiet period follows the triggering
  events. A call of the debounced listener at time \<open>now\<close> (in milliseconds) replaces the
  pending call by one due at \<open>now + 200\<close> with the new event; a pending call runs
  \<open>_onKeyDown\<close> once its due time is reached. The keystroke's default action then changes
  the text of the input element.
\<close>

definition debounce_wait :: nat where
  "debounce_wait = 200"

record page =
  widget :: geocoder
  timer :: "(nat \<times> key_event) option"

definition advance :: "nat \<Rightarrow> page \<Rightarrow> page" where
  "advance now pg =
     (case timer pg of
        None \<Rightarrow> pg
      | Some (due, e) \<Rightarrow>
          if due \<le> now then \<lparr>widget = step (KeyDown e) (widget pg), timer = None\<rparr> else pg)"

definition keystroke :: "nat \<Rightarrow> key_event \<Rightarrow> string \<Rightarrow> page \<Rightarrow> page" where
  "keystroke now e txt pg =
     (let pg1 = advance now pg
      in \<lparr>widget = (widget pg1)\<lparr>inputValue := txt\<rparr>, timer = Some (now + debounce_wait, e)\<rparr>)"

text \<open>A sequence of keystrokes: the time, the key event, and the text after the keystroke.\<close>

fun typing :: "(nat \<times> key_event \<times> string) list \<Rightarrow> page \<Rightarrow> page" where
  "typing [] pg = pg"
| "typing ((now, e, txt) # ks) pg = typing ks (keystroke now e txt pg)"

text \<open>
  \<open>rapid t0 ks\<close>: the keystrokes \<open>ks\<close> follow a keystroke made at \<open>t0\<close>, each one before the
  debounce window of the one before it has passed.
\<close>

fun rapid :: "nat \<Rightarrow> (nat \<times> key_event \<times> string) list \<Rightarrow> bool" where
  "rapid t0 [] = True"
| "rapid t0 ((now, e, txt) # ks) = (t0 \<le> now \<and> now < t0 + debounce_wait \<and> rapid now ks)"

subsection \<open>Consistency of the request bookkeeping\<close>

text \<open>Only requests that were sent can have settled.\<close>

definition consistent :: "geocoder \<Rightarrow> bool" where
  "consistent s = list_all (\<lambda>i. i < length (issued s)) (settled s)"

subsection \<open>Example states\<close>

definition hanoi :: prediction where
  "hanoi =
     [(''description'', JsonString ''Hanoi, Vietnam''),
      (''place_id'', JsonString ''p1''),
      (''structured_formatting'',
         JsonObject [(''main_text'', JsonString ''Hanoi''),
                     (''secondary_text'', JsonString ''Vietnam'')])]"


definition hue :: prediction where
  "hue =
     [(''description'', JsonString ''Hue, Vietnam''),
      (''place_id'', JsonString ''p2''),
      (''structured_formatting'',
         JsonObject [(''main_text'', JsonString ''Hue''),
                     (''secondary_text'', JsonString ''Vietnam'')])]"

text \<open>A map that shows the whole country: zoom 5, centred at latitude 16, longitude 106.\<close>

definition country_view :: map_view where
  "country_view = \<lparr>view_zoom = 5, view_lat = 16, view_lng = 106\<rparr>"

definition hanoi_detail :: place_detail where
  "hanoi_detail = \<lparr>formatted_address = ''Hanoi, Vietnam'', loc_lat = 21, loc_lng = 105.8\<rparr>"

text \<open>
  A control mounted on that map, with \<open>options.goongjs\<close> set and the other options at their
  defaults.
\<close>

definition mounted :: geocoder where
  "mounted = onAdd True country_view (GoongGeocoder (default_options\<lparr>goongjs := True\<rparr>))"

text \<open>The same control after the text "Hano" was pasted: one search is outstanding.\<close>

definition searching :: geocoder where
  "searching = step (Paste ''Hano'') mounted"

text \<open>The search was answered with two candidates, which are listed.\<close>

definition listed :: geocoder where
  "listed = step (SearchSettles 0 (Resolved [hanoi, hue])) searching"

text \<open>The user picked the first candidate: one detail request is outstanding.\<close>

definition selecting :: geocoder where
  "selecting = step (Select hanoi) listed"


text \<open>Two searches were sent, for "Hano" and then for "Hue", and neither has been answered.\<close>

definition two_searches :: geocoder where
  "two_searches = step (Paste ''Hue'') searching"

text \<open>The newer search, for "Hue", has been answered; the older one is still outstanding.\<close>

definition newer_answered :: geocoder where
  "newer_answered = step (SearchSettles 1 (Resolved [hue])) two_searches"




text \<open>The user has typed two blanks into the input; the last key was the space key.\<close>

definition blank_typed :: geocoder where
  "blank_typed = mounted\<lparr>inputValue := ''  ''\<rparr>"

definition space_key :: key_event where
  "space_key = \<lparr>keyCode = 32, metaKey = False\<rparr>"

text \<open>The user has typed "Hano" into the input; the last key was the letter O.\<close>

definition typed_hano :: geocoder where
  "typed_hano = mounted\<lparr>inputValue := ''Hano''\<rparr>"

definition letter_key :: key_event where
  "letter_key = \<lparr>keyCode = 79, metaKey = False\<rparr>"

text \<open>A page on which no keystroke is pending.\<close>

definition idle_page :: page where
  "idle_page = \<lparr>widget = mounted, timer = None\<rparr>"

subsection \<open>Notions used to state the properties\<close>

text \<open>
  The keys \<open>_onKeyDown\<close> returns on without searching: a key pressed with the meta key, or
  TAB, ESC, LEFT, RIGHT, ENTER, UP, DOWN.
\<close>

definition navigation_key :: "key_event \<Rightarrow> bool" where
  "navigation_key e =
     (metaKey e \<or> keyCode e \<in> set [TAB_KEY_CODE, ESC_KEY_CODE, 37, 39, 13, 38, 40])"

text \<open>
  The length the specification compares with \<open>minLength\<close>: that of the text without its
  leading and trailing white space.
\<close>

definition is_space :: "char \<Rightarrow> bool" where
  "is_space ch = (ch \<in> set [CHR '' '', CHR 0x09, CHR 0x0A, CHR 0x0B, CHR 0x0C, CHR 0x0D])"

definition spec_trimmedLength :: "string \<Rightarrow> nat" where
  "spec_trimmedLength v = length (dropWhile is_space (rev (dropWhile is_space v)))"








fun is_emit :: "action \<Rightarrow> bool" where
  "is_emit (Emit ev) = True"
| "is_emit a = False"

text \<open>
  The statements that write a field of the control, of the suggestion store or of the
  request bookkeeping; the others call out (an event handler, the map, the input element)
  and leave the state as it is.
\<close>

fun mutates :: "action \<Rightarrow> bool" where
  "mutates (Emit ev) = False"
| "mutates (MapFlyTo opts) = False"
| "mutates InputFocus = False"
| "mutates InputBlur = False"
| "mutates (InputScrollLeft n) = False"
| "mutates (InputSetSelectionRange a b) = False"
| "mutates PreventDefault = False"
| "mutates a = True"

text \<open>What a method executes from its first \<open>emit\<close> on.\<close>

definition after_first_emit :: "action list \<Rightarrow> action list" where
  "after_first_emit acts = dropWhile (\<lambda>a. \<not> is_emit a) acts"

text \<open>No state is written once the first event has been emitted.\<close>

definition emit_last :: "action list \<Rightarrow> bool" where
  "emit_last acts = (\<not> list_ex mutates (after_first_emit acts))"

text \<open>
  What a method has executed when a handler of the first event it emits throws: the
  exception leaves \<open>emit\<close> and the method, so nothing after that \<open>emit\<close> runs.
\<close>

definition interrupted :: "action list \<Rightarrow> action list" where
  "interrupted acts = takeWhile (\<lambda>a. \<not> is_emit a) acts @ take 1 (after_first_emit acts)"

section \<open>Basic facts about execution\<close>

lemma run_Nil: "run [] s = s"
  by (simp add: run_def)

lemma run_Cons: "run (a # acts) s = run acts (exec a s)"
  by (simp add: run_def)

lemma run_append: "run (xs @ ys) s = run ys (run xs s)"
  by (simp add: run_def)

lemma trace_exec: "trace (exec a s) = trace s @ [a]"
  by (simp add: exec_def)

lemma trace_run: "trace (run acts s) = trace s @ acts"
  by (induction acts arbitrary: s) (simp_all add: run_Nil run_Cons trace_exec)

lemma emitted_append: "emitted (xs @ ys) = emitted xs @ emitted ys"
  by (induction xs rule: emitted.induct) simp_all

lemma sent_append: "sent (xs @ ys) = sent xs @ sent ys"
  by (induction xs rule: sent.induct) simp_all

lemma issued_exec: "issued (exec a s) = issued s @ sent [a]"
  by (cases a) (simp_all add: exec_def)

lemma issued_run: "issued (run acts s) = issued s @ sent acts"
proof (induction acts arbitrary: s)
  case Nil
  show ?case by (simp add: run_Nil)
next
  case (Cons a acts)
  have "sent (a # acts) = sent [a] @ sent acts"
    using sent_append [of "[a]" acts] by simp
  then show ?case
    by (simp add: run_Cons Cons.IH issued_exec)
qed

lemma trace_step: "trace (step ev s) = trace s @ handler ev s"
  by (simp add: step_def trace_run)

lemma issued_step: "issued (step ev s) = issued s @ sent (handler ev s)"
  by (simp add: step_def issued_run)

subsection \<open>The bookkeeping stays consistent\<close>

lemma consistent_step: "consistent s \<Longrightarrow> consistent (step ev s)"
proof -
  assume c: "consistent s"
  have a: "list_all (\<lambda>i. i < length (issued s)) (settles ev s)"
    by (cases ev) (simp_all add: outstanding_def split: request.splits)
  have "\<forall>i \<in> set (settled s @ settles ev s). i < length (issued s)"
    using c a by (auto simp add: consistent_def list_all_iff)
  then have "\<forall>i \<in> set (settled s @ settles ev s). i < length (issued s @ sent (handler ev s))"
    by (auto intro: trans_less_add1)
  then show ?thesis
    by (simp add: consistent_def step_def issued_run list_all_iff)
qed

lemma consistent_new: "consistent (GoongGeocoder opts)"
  by (simp add: consistent_def GoongGeocoder_def)

lemma consistent_onAdd: "consistent s \<Longrightarrow> consistent (onAdd m view s)"
  by (simp add: consistent_def onAdd_def updateProximity_def setProximity_def Let_def)

lemma consistent_fresh_index: "consistent s \<Longrightarrow> length (issued s) \<notin> set (settled s)"
  by (auto simp add: consistent_def list_all_iff)

subsection \<open>The example states\<close>

lemma mounted_eq:
  "mounted =
     \<lparr>options = default_options\<lparr>goongjs := True\<rparr>, inputString = [], fresh = True,
      lastSelected = None, has_map = True, has_goongjs = True, mapMarker = None,
      inputValue = [], clearDisplay = [], loadingDisplay = [],
      typeahead = \<lparr>suggestions = [], selected = None, message = None\<rparr>,
      issued = [], settled = [], trace = []\<rparr>"
  by (simp add: mounted_def onAdd_def updateProximity_def setProximity_def country_view_def
      GoongGeocoder_def default_options_def)

lemma searching_eq:
  "searching =
     mounted\<lparr>inputString := ''Hano'', loadingDisplay := ''block'',
       issued := [SearchRequest \<lparr>input = ''Hano'', radius = 3000, location = None\<rparr>],
       trace := [SetLoadingDisplay ''block'', Emit (Loading ''Hano''), SetInputString ''Hano'',
                 SendSearch \<lparr>input = ''Hano'', radius = 3000, location = None\<rparr>]\<rparr>"
  by (simp add: searching_def mounted_eq step_def onPaste_def geocode_def search_query_def
      run_Cons run_Nil exec_def default_options_def)

lemma listed_eq:
  "listed =
     searching\<lparr>fresh := False, clearDisplay := ''block'', loadingDisplay := ''none'',
       typeahead := \<lparr>suggestions = [hanoi, hue], selected = None, message = None\<rparr>,
       settled := [0],
       trace := trace searching @
         [SetLoadingDisplay ''none'', SetFresh False, SetClearDisplay ''block'',
          Emit (Results [hanoi, hue]), TypeaheadUpdate [hanoi, hue]]\<rparr>"
  by (simp add: listed_def searching_eq mounted_eq step_def outstanding_def search_then_def
      run_Cons run_Nil exec_def)

lemma selecting_eq:
  "selecting =
     listed\<lparr>typeahead := \<lparr>suggestions = [hanoi, hue], selected = Some hanoi, message = None\<rparr>,
       issued := issued listed @ [DetailRequest hanoi],
       trace := trace listed @ [SetSelected (Some hanoi), SendPlaceDetail hanoi]\<rparr>"
  by (simp add: selecting_def listed_eq searching_eq mounted_eq step_def onChange_def
      run_Cons run_Nil exec_def default_options_def)

lemmas example_eqs = selecting_eq listed_eq searching_eq mounted_eq

lemma two_searches_eq:
  "two_searches =
     searching\<lparr>inputString := ''Hue'',
       issued := issued searching
         @ [SearchRequest \<lparr>input = ''Hue'', radius = 3000, location = None\<rparr>],
       trace := trace searching @
         [SetLoadingDisplay ''block'', Emit (Loading ''Hue''), SetInputString ''Hue'',
          SendSearch \<lparr>input = ''Hue'', radius = 3000, location = None\<rparr>]\<rparr>"
  by (simp add: two_searches_def searching_eq mounted_eq step_def onPaste_def geocode_def
      search_query_def run_Cons run_Nil exec_def default_options_def)

lemma newer_answered_eq:
  "newer_answered =
     two_searches\<lparr>fresh := False, clearDisplay := ''block'', loadingDisplay := ''none'',
       typeahead := \<lparr>suggestions = [hue], selected = None, message = None\<rparr>,
       settled := [1],
       trace := trace two_searches @
         [SetLoadingDisplay ''none'', SetFresh False, SetClearDisplay ''block'',
          Emit (Results [hue]), TypeaheadUpdate [hue]]\<rparr>"
  by (simp add: newer_answered_def two_searches_eq searching_eq mounted_eq step_def
      outstanding_def search_then_def run_Cons run_Nil exec_def)




subsection \<open>What changes the options and \<open>lastSelected\<close>\<close>













subsection \<open>Clearing and key handling\<close>

lemma onChange_after_deselect:
  "onChange (run ((if ev then [PreventDefault] else [])
                  @ [SetInputValue [], SetSelected None, TypeaheadClear]) s) = []"
  by (simp add: onChange_def run_Cons run_Nil exec_def)

lemma removeMarker_cases: "removeMarker s = [] \<or> removeMarker s = [MarkerRemove]"
  by (simp add: removeMarker_def)

lemma sent_clear_shared: "sent (clear_shared ev s) = []"
  by (simp add: clear_shared_def Let_def onChange_def run_Cons run_Nil exec_def sent_append
      removeMarker_def)

lemma after_first_emit_clear:
  "after_first_emit (clear_shared ev s) = [Emit Clear, SetFresh True]"
  using removeMarker_cases
    [of "run [SetClearDisplay ''none'']
           (run ((if ev then [PreventDefault] else [])
                 @ [SetInputValue [], SetSelected None, TypeaheadClear]) s)"]
  by (auto simp add: clear_shared_def Let_def onChange_after_deselect after_first_emit_def)

lemma sent_onKeyDown:
  "sent (onKeyDown e s) =
     (if inputValue s \<noteq> [] \<and> minLength (options s) \<le> int (length (inputValue s))
         \<and> \<not> navigation_key e
      then [SearchRequest (search_query (inputValue s) s)] else [])"
  by (simp add: onKeyDown_def navigation_key_def sent_clear_shared sent_append clear_def
      geocode_def ESC_KEY_CODE_def TAB_KEY_CODE_def)

subsection \<open>Statements that leave the state alone\<close>

lemma effect_idle: "\<not> mutates a \<Longrightarrow> effect a s = s"
  by (cases a) simp_all

lemma run_idle: "\<not> list_ex mutates acts \<Longrightarrow> run acts s = s\<lparr>trace := trace s @ acts\<rparr>"
  by (induction acts arbitrary: s) (simp_all add: run_Nil run_Cons exec_def effect_idle)

text \<open>
  When nothing is written after the first \<open>emit\<close>, an exception thrown there leaves the
  fields as the whole method would have left them; only the later calls are missing.
\<close>

lemma run_interrupted:
  assumes "emit_last acts"
  shows "run acts s = (run (interrupted acts) s)\<lparr>trace := trace s @ acts\<rparr>"
proof -
  let ?pre = "takeWhile (\<lambda>a. \<not> is_emit a) acts"
  let ?post = "after_first_emit acts"
  have split: "acts = ?pre @ ?post"
    by (simp add: after_first_emit_def)
  have idle: "\<not> list_ex mutates ?post"
    using assms by (simp add: emit_last_def)
  have idle1: "\<not> list_ex mutates (take 1 ?post)"
    using idle by (auto simp add: list_ex_iff dest: in_set_takeD)
  have "run acts s = run ?post (run ?pre s)"
    using split run_append by metis
  also have "\<dots> = (run ?pre s)\<lparr>trace := trace (run ?pre s) @ ?post\<rparr>"
    using idle by (rule run_idle)
  also have "\<dots> = (run ?pre s)\<lparr>trace := trace s @ acts\<rparr>"
    using split by (simp add: trace_run)
  finally have a: "run acts s = (run ?pre s)\<lparr>trace := trace s @ acts\<rparr>" .
  have "run (interrupted acts) s = run (take 1 ?post) (run ?pre s)"
    by (simp add: interrupted_def run_append)
  also have "\<dots> = (run ?pre s)\<lparr>trace := trace (run ?pre s) @ take 1 ?post\<rparr>"
    using idle1 by (rule run_idle)
  finally have b: "(run (interrupted acts) s)\<lparr>trace := trace s @ acts\<rparr>
                     = (run ?pre s)\<lparr>trace := trace s @ acts\<rparr>"
    by simp
  show ?thesis using a b by simp
qed

subsection \<open>Keystrokes inside the debounce window\<close>

lemma typing_pending:
  assumes "timer pg = Some (t0 + debounce_wait, e0)" and "rapid t0 ks" and "ks \<noteq> []"
  shows "typing ks pg =
           (case last ks of (now, e, v) \<Rightarrow>
              \<lparr>widget = (widget pg)\<lparr>inputValue := v\<rparr>, timer = Some (now + debounce_wait, e)\<rparr>)"
  using assms
proof (induction ks arbitrary: pg t0 e0)
  case Nil
  then show ?case by simp
next
  case (Cons k ks)
  obtain now e v where k: "k = (now, e, v)"
    by (cases k) auto
  from Cons.prems k have window: "now < t0 + debounce_wait" and rest: "rapid now ks"
    by simp_all
  let ?pg1 = "keystroke now e v pg"
  have pg1: "?pg1 = \<lparr>widget = (widget pg)\<lparr>inputValue := v\<rparr>,
                     timer = Some (now + debounce_wait, e)\<rparr>"
    using Cons.prems(1) window by (simp add: keystroke_def advance_def)
  show ?case
  proof (cases "ks = []")
    case True
    then show ?thesis using k pg1 by simp
  next
    case False
    have "typing ks ?pg1 =
           (case last ks of (now', e', v') \<Rightarrow>
              \<lparr>widget = (widget ?pg1)\<lparr>inputValue := v'\<rparr>,
               timer = Some (now' + debounce_wait, e')\<rparr>)"
      using Cons.IH [of ?pg1 now e] rest False pg1 by simp
    then show ?thesis
      using k False pg1 by (simp split: prod.splits)
  qed
qed

section \<open>C1: the response of a superseded search\<close>

text \<open>
  C1 as stated does not hold. The search for "Hano" was superseded by the search for "Hue",
  which has been answered with one candidate. When the response to the search for "Hano"
  arrives afterwards, the suggestion list is replaced by its candidates and \<open>results\<close> is
  emitted for them.
\<close>

theorem stale_response_counterexample:
  "inputString newer_answered = ''Hue''
   \<and> outstanding 0 newer_answered
   \<and> issued newer_answered ! 0
       = SearchRequest \<lparr>input = ''Hano'', radius = 3000, location = None\<rparr>
   \<and> suggestions (typeahead newer_answered) = [hue]
   \<and> suggestions (typeahead (step (SearchSettles 0 (Resolved [hanoi])) newer_answered))
       = [hanoi]
   \<and> emitted (drop (length (trace newer_answered))
        (trace (step (SearchSettles 0 (Resolved [hanoi])) newer_answered)))
       = [Results [hanoi]]"
  by (simp add: newer_answered_eq two_searches_eq searching_eq mounted_eq step_def
      outstanding_def search_then_def run_Cons run_Nil exec_def)

text \<open>
  C1, amended. The handlers of a search request do not look at which request they belong
  to. When the response of an outstanding search request \<open>i\<close> arrives after a later search
  \<open>j\<close> was sent, it is applied like any other: on success the loading indicator is hidden,
  \<open>results\<close> is emitted with its predictions, and these become the suggestion list; on a
  failure with a status other than 0 the error message is rendered and \<open>results\<close> (empty)
  and \<open>error\<close> are emitted. The response that arrives last determines the state.
\<close>

theorem stale_response_applied:
  assumes "outstanding i s" and "issued s ! i = SearchRequest q"
    and "i < j" and "j < length (issued s)" and "issued s ! j = SearchRequest q'"
  shows "(let s' = step (SearchSettles i (Resolved res)) s
          in loadingDisplay s' = ''none''
             \<and> emitted (trace s') = emitted (trace s) @ [Results res]
             \<and> suggestions (typeahead s') = res
             \<and> selected (typeahead s') = None)
       \<and> (\<not> status0 err \<longrightarrow>
           (let s' = step (SearchSettles i (Rejected err)) s
            in loadingDisplay s' = ''none''
               \<and> emitted (trace s') = emitted (trace s) @ [Results [], Error err]
               \<and> suggestions (typeahead s') = []
               \<and> message (typeahead s') = Some errorMessage))"
  using assms(1,2)
  by (simp add: step_def search_then_def search_catch_def run_Nil run_Cons exec_def
      renderError_def renderNoResults_def renderMessage_def emitted_append Let_def)

theorem stale_response_applied_witness:
  "outstanding 0 two_searches \<and> 0 < (1::nat) \<and> 1 < length (issued two_searches)
   \<and> suggestions (typeahead (step (SearchSettles 0 (Resolved [hanoi])) two_searches)) = [hanoi]
   \<and> \<not> status0 Falsy
   \<and> message (typeahead (step (SearchSettles 0 (Rejected Falsy)) two_searches))
       = Some errorMessage"
proof -
  have h1: "outstanding 0 two_searches"
    by (simp add: outstanding_def two_searches_eq example_eqs)
  have h2: "issued two_searches ! 0
              = SearchRequest \<lparr>input = ''Hano'', radius = 3000, location = None\<rparr>"
    by (simp add: two_searches_eq example_eqs)
  have h3: "0 < (1::nat)" by simp
  have h4: "1 < length (issued two_searches)"
    by (simp add: two_searches_eq example_eqs)
  have h5: "issued two_searches ! 1
              = SearchRequest \<lparr>input = ''Hue'', radius = 3000, location = None\<rparr>"
    by (simp add: two_searches_eq example_eqs)
  show ?thesis
    using h1 h4 stale_response_applied [OF h1 h2 h3 h4 h5, of "[hanoi]" Falsy]
    by (simp add: Let_def)
qed

section \<open>C2: selecting a candidate\<close>




section \<open>C3: the position of the event emission\<close>

text \<open>
  C3 as stated does not hold. When a search succeeds with candidates, the suggestion list is
  updated after \<open>results\<close> is emitted, and \<open>_clear\<close> sets \<open>fresh\<close> after \<open>clear\<close> is emitted. If a
  handler of \<open>results\<close> throws, the candidates of the response are not listed.
\<close>

theorem emit_position_counterexample:
  "\<not> emit_last (search_then [hanoi, hue] searching)
   \<and> \<not> emit_last (clear_shared True selecting)
   \<and> suggestions (typeahead (run (search_then [hanoi, hue] searching) searching))
       = [hanoi, hue]
   \<and> suggestions (typeahead (run (interrupted (search_then [hanoi, hue] searching)) searching))
       = []"
  by (simp add: emit_last_def after_first_emit_clear interrupted_def)
     (simp add: after_first_emit_def search_then_def searching_eq mounted_eq run_Cons run_Nil
       exec_def)

text \<open>
  C3, amended. For a failed search, a search without predictions, a successful detail
  request and a failed detail request, nothing is written after the first event is emitted,
  so an exception thrown by a handler of that event leaves the same fields as the completed
  method. For a search with predictions, the update of the suggestion list follows the
  emission of \<open>results\<close>; in \<open>_clear\<close>, the assignment \<open>fresh = true\<close> follows the emission of
  \<open>clear\<close>.
\<close>

theorem emit_position:
  "emit_last (search_catch err s)
   \<and> emit_last (search_then [] s)
   \<and> emit_last (detail_then c d s)
   \<and> emit_last (detail_catch err s)
   \<and> (res \<noteq> [] \<longrightarrow>
        after_first_emit (search_then res s) = [Emit (Results res), TypeaheadUpdate res])
   \<and> after_first_emit (clear_shared ev s) = [Emit Clear, SetFresh True]
   \<and> (\<forall>acts. acts \<in> {search_catch err s, search_then [] s, detail_then c d s,
                        detail_catch err s}
         \<longrightarrow> run acts s = (run (interrupted acts) s)\<lparr>trace := trace s @ acts\<rparr>)"
proof -
  have a: "emit_last (search_catch err s)"
    by (simp add: emit_last_def after_first_emit_def search_catch_def renderError_def
        renderMessage_def)
  have b: "emit_last (search_then [] s)"
    by (simp add: emit_last_def after_first_emit_def search_then_def renderNoResults_def
        renderMessage_def)
  have c: "emit_last (detail_then c d s)"
    by (simp add: emit_last_def after_first_emit_def detail_then_def handleMarker_def
        removeMarker_def)
  have d: "emit_last (detail_catch err s)"
    by (simp add: emit_last_def after_first_emit_def detail_catch_def)
  have e: "res \<noteq> [] \<longrightarrow>
             after_first_emit (search_then res s) = [Emit (Results res), TypeaheadUpdate res]"
    by (simp add: after_first_emit_def search_then_def)
  show ?thesis
    using a b c d e after_first_emit_clear run_interrupted by auto
qed

theorem emit_position_witness:
  "after_first_emit (search_then [hanoi] searching)
     = [Emit (Results [hanoi]), TypeaheadUpdate [hanoi]]
   \<and> run (search_then [] searching) searching
       = (run (interrupted (search_then [] searching)) searching)
           \<lparr>trace := trace searching @ search_then [] searching\<rparr>"
  using emit_position [of Falsy searching hanoi hanoi_detail "[hanoi]" True]
  by simp

section \<open>C4: search failures\<close>

text \<open>
  C4. When the promise of an outstanding search request is rejected with an error whose
  status is exactly 0, nothing happens: the state of the control is unchanged (no error is
  shown, the suggestions stay, nothing is emitted). When it is rejected with any other
  value, the error message is rendered in place of the (emptied) list, and the events
  \<open>results\<close>, with an empty prediction list, and \<open>error\<close> are emitted.
\<close>

theorem search_failure:
  assumes "outstanding i s" and "issued s ! i = SearchRequest c"
  shows "(status0 err \<longrightarrow>
            step (SearchSettles i (Rejected err)) s = s\<lparr>settled := settled s @ [i]\<rparr>)
       \<and> (\<not> status0 err \<longrightarrow>
            (let s' = step (SearchSettles i (Rejected err)) s
             in message (typeahead s') = Some errorMessage
                \<and> suggestions (typeahead s') = []
                \<and> selected (typeahead s') = None
                \<and> emitted (trace s') = emitted (trace s) @ [Results [], Error err]))"
  using assms
  by (simp add: step_def search_catch_def run_Nil run_Cons exec_def renderError_def
      renderMessage_def emitted_append)

theorem search_failure_witness:
  "outstanding 0 searching \<and> status0 (Failure (Some 0) ''aborted'')
   \<and> step (SearchSettles 0 (Rejected (Failure (Some 0) ''aborted''))) searching
       = searching\<lparr>settled := [0]\<rparr>
   \<and> \<not> status0 (Failure (Some 503) ''unavailable'')
   \<and> message (typeahead
        (step (SearchSettles 0 (Rejected (Failure (Some 503) ''unavailable''))) searching))
       = Some errorMessage
   \<and> emitted (trace
        (step (SearchSettles 0 (Rejected (Failure (Some 503) ''unavailable''))) searching))
       = [Loading ''Hano'', Results [], Error (Failure (Some 503) ''unavailable'')]"
proof -
  have h1: "outstanding 0 searching"
    by (simp add: outstanding_def searching_eq mounted_eq)
  have h2: "issued searching ! 0
              = SearchRequest \<lparr>input = ''Hano'', radius = 3000, location = None\<rparr>"
    by (simp add: searching_eq)
  have h3: "settled searching = []" "emitted (trace searching) = [Loading ''Hano'']"
    by (simp_all add: searching_eq mounted_eq)
  show ?thesis
    using h1 h3 search_failure [OF h1 h2, of "Failure (Some 0) ''aborted''"]
      search_failure [OF h1 h2, of "Failure (Some 503) ''unavailable''"]
    by (simp add: Let_def)
qed

section \<open>C5: detail failures\<close>

text \<open>
  C5. When the promise of an outstanding detail request is rejected, the control emits the
  event \<open>error\<close> and does nothing else: the state is unchanged, so no message is rendered,
  and no \<open>results\<close> event is emitted. A rejected search (status other than 0), in contrast,
  renders the error message and emits both \<open>results\<close> and \<open>error\<close>.
\<close>

theorem detail_failure:
  assumes "outstanding i s" and "issued s ! i = DetailRequest c"
  shows "step (DetailSettles i (Rejected err)) s
           = s\<lparr>settled := settled s @ [i], trace := trace s @ [Emit (Error err)]\<rparr>
       \<and> (\<forall>t j q. outstanding j t \<and> issued t ! j = SearchRequest q \<and> \<not> status0 err \<longrightarrow>
            (let t' = step (SearchSettles j (Rejected err)) t
             in message (typeahead t') = Some errorMessage
                \<and> emitted (trace t') = emitted (trace t) @ [Results [], Error err]))"
  using assms
  by (simp add: step_def detail_catch_def search_catch_def run_Nil run_Cons exec_def
      renderError_def renderMessage_def emitted_append)

theorem detail_failure_witness:
  "outstanding 1 selecting \<and> issued selecting ! 1 = DetailRequest hanoi
   \<and> step (DetailSettles 1 (Rejected (Failure (Some 404) ''not found''))) selecting
       = selecting\<lparr>settled := [0, 1],
           trace := trace selecting @ [Emit (Error (Failure (Some 404) ''not found''))]\<rparr>
   \<and> outstanding 0 searching \<and> \<not> status0 (Failure (Some 404) ''not found'')
   \<and> message (typeahead
        (step (SearchSettles 0 (Rejected (Failure (Some 404) ''not found''))) searching))
       = Some errorMessage"
proof -
  have h1: "outstanding 1 selecting"
    by (simp add: outstanding_def example_eqs)
  have h2: "issued selecting ! 1 = DetailRequest hanoi"
    by (simp add: example_eqs)
  have h3: "outstanding 0 searching
            \<and> issued searching ! 0
                = SearchRequest \<lparr>input = ''Hano'', radius = 3000, location = None\<rparr>
            \<and> \<not> status0 (Failure (Some 404) ''not found'')"
    by (simp add: outstanding_def example_eqs)
  have h4: "settled selecting = [0]"
    by (simp add: example_eqs)
  note d = detail_failure [OF h1 h2, of "Failure (Some 404) ''not found''"]
  from d have a: "step (DetailSettles 1 (Rejected (Failure (Some 404) ''not found''))) selecting
       = selecting\<lparr>settled := [0, 1],
           trace := trace selecting @ [Emit (Error (Failure (Some 404) ''not found''))]\<rparr>"
    using h4 by simp
  from d h3 have b: "message (typeahead
        (step (SearchSettles 0 (Rejected (Failure (Some 404) ''not found''))) searching))
       = Some errorMessage"
    by (metis (no_types))
  show ?thesis
    using h1 h2 h3 a b by simp
qed

section \<open>C6: selecting the same candidate twice\<close>




section \<open>C7: debounced keystrokes\<close>

text \<open>
  C7. Let keystrokes be typed from a state with no pending call, each within 200 ms of the
  one before. While they are typed nothing is dispatched: the control is as before apart
  from the text of its input. Once 200 ms have passed after the last keystroke,
  \<open>_onKeyDown\<close> has run exactly once, for the last keystroke and on the final text, so the
  only request sent is the search for the final text (when the last key and the text pass
  the checks of \<open>_onKeyDown\<close>).
\<close>

theorem debounce_dispatches_last:
  assumes "timer pg = None" and "rapid t0 ks"
    and "last ((t0, e0, v0) # ks) = (tn, en, vn)"
    and "tn + debounce_wait \<le> T"
  shows "widget (typing ((t0, e0, v0) # ks) pg) = (widget pg)\<lparr>inputValue := vn\<rparr>
       \<and> advance T (typing ((t0, e0, v0) # ks) pg)
           = \<lparr>widget = step (KeyDown en) ((widget pg)\<lparr>inputValue := vn\<rparr>), timer = None\<rparr>
       \<and> issued (widget (advance T (typing ((t0, e0, v0) # ks) pg)))
           = issued (widget pg)
             @ (if vn \<noteq> [] \<and> minLength (options (widget pg)) \<le> int (length vn)
                   \<and> \<not> navigation_key en
                then [SearchRequest (search_query vn (widget pg))] else [])"
proof -
  let ?pg1 = "keystroke t0 e0 v0 pg"
  have pg1: "?pg1 = \<lparr>widget = (widget pg)\<lparr>inputValue := v0\<rparr>,
                     timer = Some (t0 + debounce_wait, e0)\<rparr>"
    using assms(1) by (simp add: keystroke_def advance_def)
  have fin: "typing ((t0, e0, v0) # ks) pg
               = \<lparr>widget = (widget pg)\<lparr>inputValue := vn\<rparr>,
                  timer = Some (tn + debounce_wait, en)\<rparr>"
  proof (cases "ks = []")
    case True
    then show ?thesis using assms(3) pg1 by simp
  next
    case False
    have "typing ks ?pg1 =
           (case last ks of (now', e', v') \<Rightarrow>
              \<lparr>widget = (widget ?pg1)\<lparr>inputValue := v'\<rparr>,
               timer = Some (now' + debounce_wait, e')\<rparr>)"
      using typing_pending [of ?pg1 t0 e0 ks] assms(2) False pg1 by simp
    then show ?thesis
      using False assms(3) pg1 by simp
  qed
  have adv: "advance T (typing ((t0, e0, v0) # ks) pg)
           = \<lparr>widget = step (KeyDown en) ((widget pg)\<lparr>inputValue := vn\<rparr>), timer = None\<rparr>"
    using fin assms(4) by (simp add: advance_def)
  have req: "issued (step (KeyDown en) ((widget pg)\<lparr>inputValue := vn\<rparr>))
           = issued (widget pg)
             @ (if vn \<noteq> [] \<and> minLength (options (widget pg)) \<le> int (length vn)
                   \<and> \<not> navigation_key en
                then [SearchRequest (search_query vn (widget pg))] else [])"
    by (simp add: issued_step sent_onKeyDown search_query_def)
  show ?thesis
    using fin adv req by simp
qed

theorem debounce_dispatches_last_witness:
  "timer idle_page = None
   \<and> rapid 0 [(80, \<lparr>keyCode = 65, metaKey = False\<rparr>, ''Ha''),
              (150, \<lparr>keyCode = 78, metaKey = False\<rparr>, ''Han'')]
   \<and> issued (widget (advance 350 (typing
        [(0, \<lparr>keyCode = 72, metaKey = False\<rparr>, ''H''),
         (80, \<lparr>keyCode = 65, metaKey = False\<rparr>, ''Ha''),
         (150, \<lparr>keyCode = 78, metaKey = False\<rparr>, ''Han'')] idle_page)))
       = [SearchRequest \<lparr>input = ''Han'', radius = 3000, location = None\<rparr>]"
proof -
  have h1: "timer idle_page = None"
    by (simp add: idle_page_def)
  have h2: "rapid 0 [(80, \<lparr>keyCode = 65, metaKey = False\<rparr>, ''Ha''),
                     (150, \<lparr>keyCode = 78, metaKey = False\<rparr>, ''Han'')]"
    by (simp add: debounce_wait_def)
  have h3: "last [(0::nat, \<lparr>keyCode = 72, metaKey = False\<rparr>, ''H''),
                  (80, \<lparr>keyCode = 65, metaKey = False\<rparr>, ''Ha''),
                  (150, \<lparr>keyCode = 78, metaKey = False\<rparr>, ''Han'')]
              = (150, \<lparr>keyCode = 78, metaKey = False\<rparr>, ''Han'')"
    by simp
  have h4: "150 + debounce_wait \<le> 350"
    by (simp add: debounce_wait_def)
  have h5: "issued (widget idle_page) = []" "minLength (options (widget idle_page)) = 2"
    "\<not> navigation_key \<lparr>keyCode = 78, metaKey = False\<rparr>"
    "search_query ''Han'' (widget idle_page)
       = \<lparr>input = ''Han'', radius = 3000, location = None\<rparr>"
    by (simp_all add: idle_page_def mounted_eq default_options_def navigation_key_def
        search_query_def TAB_KEY_CODE_def ESC_KEY_CODE_def)
  note all = debounce_dispatches_last [OF h1 h2 h3 h4]
  note req = conjunct2 [OF conjunct2 [OF all]]
  show ?thesis
    using h1 h2 h5 req by simp
qed

section \<open>C8: which key events start a search\<close>

text \<open>
  C8 as stated does not hold: the length compared with \<open>minLength\<close> is that of the text as
  it is, not of the trimmed text. With two blanks in the input and \<open>minLength\<close> 2, a
  keystroke sends a search although the trimmed text is empty.
\<close>

theorem keydown_trimmed_counterexample:
  "sent (onKeyDown space_key blank_typed) \<noteq> []
   \<and> \<not> (minLength (options blank_typed) \<le> int (spec_trimmedLength (inputValue blank_typed))
        \<and> \<not> navigation_key space_key)"
  by (simp add: sent_onKeyDown blank_typed_def space_key_def navigation_key_def mounted_eq
      default_options_def spec_trimmedLength_def is_space_def TAB_KEY_CODE_def ESC_KEY_CODE_def)

text \<open>
  C8, amended. \<open>_onKeyDown\<close> sends a search, for the text of the input, exactly when the
  text is not empty, its length (untrimmed) is at least \<open>minLength\<close>, and the key is not a
  navigation key (tab, escape, the four arrows, enter, or a key pressed with the meta key);
  otherwise it sends nothing. \<open>_onPaste\<close> sends a search for the pasted text exactly when
  its length (untrimmed) is at least \<open>minLength\<close>.
\<close>

theorem keydown_search_gate:
  "sent (onKeyDown e s) =
     (if inputValue s \<noteq> [] \<and> minLength (options s) \<le> int (length (inputValue s))
         \<and> \<not> navigation_key e
      then [SearchRequest (search_query (inputValue s) s)] else [])
   \<and> sent (onPaste v s) =
     (if minLength (options s) \<le> int (length v) then [SearchRequest (search_query v s)]
      else [])"
  by (simp add: sent_onKeyDown onPaste_def geocode_def)

theorem keydown_search_gate_witness:
  "sent (onKeyDown letter_key typed_hano)
     = [SearchRequest \<lparr>input = ''Hano'', radius = 3000, location = None\<rparr>]
   \<and> sent (onKeyDown \<lparr>keyCode = 13, metaKey = False\<rparr> typed_hano) = []
   \<and> sent (onPaste ''H'' typed_hano) = []"
  using keydown_search_gate [of letter_key typed_hano "''H''"]
    keydown_search_gate [of "\<lparr>keyCode = 13, metaKey = False\<rparr>" typed_hano "''H''"]
  by (simp add: typed_hano_def letter_key_def navigation_key_def mounted_eq default_options_def
      search_query_def TAB_KEY_CODE_def ESC_KEY_CODE_def)

section \<open>C9: a search without predictions\<close>

text \<open>
  C9. When the promise of an outstanding search request is resolved with no predictions, the
  selection is cleared, the "No results found" message is rendered, the error message is not
  rendered, and a \<open>results\<close> event carrying the empty list is emitted.
\<close>

theorem empty_result:
  assumes "outstanding i s" and "issued s ! i = SearchRequest q"
  shows "(let s' = step (SearchSettles i (Resolved [])) s
          in selected (typeahead s') = None
             \<and> suggestions (typeahead s') = []
             \<and> message (typeahead s') = Some noResultsMessage
             \<and> noResultsMessage \<noteq> errorMessage
             \<and> TypeaheadRenderError errorMessage \<notin> set (drop (length (trace s)) (trace s'))
             \<and> emitted (trace s') = emitted (trace s) @ [Results []])"
  using assms
  by (simp add: step_def search_then_def run_Nil run_Cons exec_def renderNoResults_def
      renderMessage_def emitted_append noResultsMessage_def errorMessage_def)

theorem empty_result_witness:
  "outstanding 0 searching
   \<and> selected (typeahead (step (SearchSettles 0 (Resolved [])) searching)) = None
   \<and> message (typeahead (step (SearchSettles 0 (Resolved [])) searching))
       = Some noResultsMessage
   \<and> emitted (trace (step (SearchSettles 0 (Resolved [])) searching))
       = [Loading ''Hano'', Results []]"
proof -
  have h1: "outstanding 0 searching"
    by (simp add: outstanding_def example_eqs)
  have h2: "issued searching ! 0
              = SearchRequest \<lparr>input = ''Hano'', radius = 3000, location = None\<rparr>"
    by (simp add: example_eqs)
  have h3: "emitted (trace searching) = [Loading ''Hano'']"
    by (simp add: example_eqs)
  show ?thesis
    using h1 h3 empty_result [OF h1 h2] by (simp add: Let_def)
qed

section \<open>C10: selection after a failed detail request\<close>

text \<open>
  C10. Suppose the selection of a candidate sends a detail request (the serialisation of the
  candidate differs from \<open>lastSelected\<close> and \<open>flyTo\<close> is enabled) and that request fails. Then
  \<open>lastSelected\<close> is what it was before the selection, and selecting the same candidate again
  sends a second detail request. \<open>lastSelected\<close> becomes the serialisation of the candidate
  when the request succeeds.
\<close>

theorem detail_failure_keeps_lastSelected:
  assumes "consistent s" and "Some (JSON_stringify c) \<noteq> lastSelected s"
    and "truthy (flyTo (options s))"
  shows "(let n = length (issued s);
              s1 = step (Select c) s;
              s2 = step (DetailSettles n (Rejected err)) s1;
              s3 = step (Select c) s2
          in issued s1 = issued s @ [DetailRequest c]
             \<and> lastSelected s2 = lastSelected s
             \<and> issued s3 = issued s @ [DetailRequest c, DetailRequest c]
             \<and> (\<forall>d. lastSelected (step (DetailSettles n (Resolved d)) s1)
                      = Some (JSON_stringify c)))"
  using assms consistent_fresh_index [OF assms(1)]
  by (simp add: step_def onChange_def detail_catch_def detail_then_def run_Nil run_Cons exec_def
      outstanding_def Let_def run_append handleMarker_def removeMarker_def)

theorem detail_failure_keeps_lastSelected_witness:
  "consistent listed \<and> Some (JSON_stringify hanoi) \<noteq> lastSelected listed
   \<and> truthy (flyTo (options listed))
   \<and> lastSelected (step (DetailSettles 1 (Rejected Falsy)) (step (Select hanoi) listed)) = None
   \<and> issued (step (Select hanoi)
        (step (DetailSettles 1 (Rejected Falsy)) (step (Select hanoi) listed)))
       = [SearchRequest \<lparr>input = ''Hano'', radius = 3000, location = None\<rparr>,
          DetailRequest hanoi, DetailRequest hanoi]"
proof -
  have h1: "consistent listed"
    by (simp add: consistent_def example_eqs)
  have h2: "Some (JSON_stringify hanoi) \<noteq> lastSelected listed"
    by (simp add: example_eqs)
  have h3: "truthy (flyTo (options listed))"
    by (simp add: example_eqs default_options_def)
  have h4: "issued listed = [SearchRequest \<lparr>input = ''Hano'', radius = 3000, location = None\<rparr>]"
    "lastSelected listed = None"
    by (simp_all add: example_eqs)
  show ?thesis
    using h1 h2 h3 h4 detail_failure_keeps_lastSelected [OF h1 h2 h3, of Falsy]
    by (simp add: Let_def)
qed

end
